theory Spec2Isabelle
  imports Complex_Main
begin

section \<open>The C library, as far as sqlparser.h uses it\<close>

text \<open>
  The program is C for the Windows runtime (it includes \<^verbatim>\<open>io.h\<close> and calls
  \<^verbatim>\<open>_mktemp\<close>), where \<^verbatim>\<open>int\<close> and \<^verbatim>\<open>long\<close> are both 32 bits wide.
  A C string is a \<open>string\<close> without the terminating NUL; the strings of this model
  hold no NUL character. Allocation is assumed to succeed. \<^verbatim>\<open>isspace\<close> is the one
  of the C locale, in which no byte above 127 is white space.

  Where the C program reads memory it does not own, reads a variable it never assigned or
  converts a value out of range, its behaviour is undefined or its result indeterminate:
  the model then returns \<open>Inl\<close> of the reason instead of a value.
\<close>

datatype undefined_behaviour =
    ReadPastTerminator      \<comment> \<open>the lexer's cursor moved beyond the NUL of the query\<close>
  | BufferUnderrun          \<comment> \<open>\<^verbatim>\<open>buffer[index - 1]\<close> with \<^verbatim>\<open>index == 0\<close>, or \<^verbatim>\<open>--index\<close> below 0\<close>
  | EmptyStringIndex        \<comment> \<open>\<^verbatim>\<open>value.string[length - 1]\<close> with \<^verbatim>\<open>length == 0\<close>\<close>
  | FloatToIntRange         \<comment> \<open>a floating value converted to \<^verbatim>\<open>int\<close> out of its range\<close>
  | InactiveUnionMember     \<comment> \<open>a member of \<^verbatim>\<open>union Value\<close> read that was not the one stored\<close>
  | ArrayIndexOutOfBounds   \<comment> \<open>an index of 128 or more into one of the 128-element arrays\<close>
  | UninitialisedTable      \<comment> \<open>\<^verbatim>\<open>struct Table\<close> returned with \<^verbatim>\<open>rowCount\<close> never assigned\<close>
  | NullDereference         \<comment> \<open>\<^verbatim>\<open>list->next\<close> on the \<^verbatim>\<open>NULL\<close> list\<close>

definition isspace_c :: "char \<Rightarrow> bool" where
  "isspace_c c = (c = CHR 0x20 \<or> c = CHR 0x09 \<or> c = CHR 0x0A \<or> c = CHR 0x0B
                   \<or> c = CHR 0x0C \<or> c = CHR 0x0D)"

definition isdigit_c :: "char \<Rightarrow> bool" where
  "isdigit_c c = (48 \<le> (of_char c :: nat) \<and> (of_char c :: nat) \<le> 57)"

definition digit_value :: "char \<Rightarrow> int" where
  "digit_value c = int (of_char c) - 48"

definition LONG_MAX :: int where
  "LONG_MAX = 2147483647"

definition LONG_MIN :: int where
  "LONG_MIN = - 2147483648"

text \<open>
  \<^verbatim>\<open>strtol(s, NULL, 10)\<close>: white space is skipped, a sign is optional, the longest run
  of decimal digits is the number (0 when there is none), and a value outside of
  \<^verbatim>\<open>long\<close> is replaced by the nearest bound. The result is then stored in an
  \<^verbatim>\<open>int\<close>, which has the same range.
\<close>

definition strtol_c :: "string \<Rightarrow> int" where
  "strtol_c s =
     (let s1 = dropWhile isspace_c s;
          neg = (s1 \<noteq> [] \<and> hd s1 = CHR ''-'');
          s2 = (if s1 \<noteq> [] \<and> (hd s1 = CHR ''-'' \<or> hd s1 = CHR ''+'') then tl s1 else s1);
          n = foldl (\<lambda>a c. 10 * a + digit_value c) 0 (takeWhile isdigit_c s2);
          v = (if neg then - n else n)
      in max LONG_MIN (min LONG_MAX v))"

text \<open>
  \<^verbatim>\<open>strcmp\<close>: the difference of the first two bytes that differ, read as unsigned
  characters, the end of a string counting as 0. Only its sign is used.
\<close>

fun strcmp_c :: "string \<Rightarrow> string \<Rightarrow> int" where
  "strcmp_c [] [] = 0"
| "strcmp_c [] (b # bs) = - int (of_char b)"
| "strcmp_c (a # as) [] = int (of_char a)"
| "strcmp_c (a # as) (b # bs) =
     (if a = b then strcmp_c as bs else int (of_char a) - int (of_char b))"

text \<open>
  What the program takes from the platform and what differs between C runtimes is a
  parameter of the model: the floating-point conversions (values of type \<open>'f\<close> stand for
  both \<^verbatim>\<open>float\<close> and \<^verbatim>\<open>double\<close>) and the five characters that \<^verbatim>\<open>_mktemp\<close>
  derives from the process identifier.
\<close>

record 'f libc =
  strtod :: "string \<Rightarrow> 'f"              \<comment> \<open>\<^verbatim>\<open>strtod(s, NULL)\<close>\<close>
  float_of_double :: "'f \<Rightarrow> 'f"         \<comment> \<open>the conversion of a \<^verbatim>\<open>double\<close> to \<^verbatim>\<open>float\<close>\<close>
  int_of_float :: "'f \<Rightarrow> int option"    \<comment> \<open>the conversion to \<^verbatim>\<open>int\<close>; \<open>None\<close> out of range\<close>
  printf_g :: "'f \<Rightarrow> string"              \<comment> \<open>the text that \<^verbatim>\<open>%g\<close> prints\<close>
  mktemp_id :: string                     \<comment> \<open>the five characters \<^verbatim>\<open>_mktemp\<close> takes from the process\<close>

section \<open>The data types of sqlparser.h\<close>

datatype ScannerState = ScanValue | ScanToken

datatype QueryType = Create | Select | Delete | Insert | Update | Invalid

text \<open>
  \<^verbatim>\<open>enum FieldType\<close> has four enumerators, yet \<^verbatim>\<open>SQLParser_GetFieldType\<close> returns
  \<^verbatim>\<open>Invalid\<close> (the integer 5) for an unknown type name and \<^verbatim>\<open>SQLParser_CreateTable\<close>
  stores it: \<open>InvalidType\<close> is that fifth value.
\<close>

datatype FieldType = Integer | Number | String | Boolean | InvalidType

datatype Operator =
    InvalidOperator
  | EqualOperator
  | NotEqualOperator
  | GreaterThanOperator
  | LessThanOperator
  | GreaterOrEqualOperator
  | LessOrEqualOperator
  | AssignOperator

text \<open>One node of \<^verbatim>\<open>struct TokenList\<close>; the linked list is a HOL list.\<close>

record Token =
  keyword :: string
  val :: string
  operator :: Operator

text \<open>
  \<^verbatim>\<open>union Value\<close>, with the member that was stored. \<open>VUninit\<close> is the union that
  \<^verbatim>\<open>SQLvalueFromStringAndType\<close> returns without assigning any member.
\<close>

datatype 'f Value =
    VInteger int
  | VNumber 'f
  | VString string
  | VBoolean bool
  | VUninit

section \<open>The lexer\<close>

text \<open>
  \<^verbatim>\<open>SQLfindOperator_helper\<close> gets the address of the cursor, which points at one of
  \<^verbatim>\<open>: < > ! =\<close>; it returns the operator and leaves the cursor on the last character
  of the operator. The model takes the text at the cursor and returns the operator with
  the text at the new cursor. (The cursor is never \<^verbatim>\<open>NULL\<close>, so the branch returning
  \<^verbatim>\<open>InvalidOperator\<close> is not taken.) Reading \<^verbatim>\<open>*(query + 1)\<close> at the end of the
  text reads the terminator, which is no operator character.

  The third test is the source's: \<^verbatim>\<open>(*query == '!') && (*query == '=')\<close>.
\<close>

definition next_is :: "string \<Rightarrow> char \<Rightarrow> bool" where
  "next_is cs c = (case cs of [] \<Rightarrow> False | d # ds \<Rightarrow> d = c)"

fun SQLfindOperator_helper :: "string \<Rightarrow> Operator \<times> string" where
  "SQLfindOperator_helper [] = (AssignOperator, [])"
| "SQLfindOperator_helper (c # cs) =
     (if c = CHR ''>'' then
        (if next_is cs CHR ''='' then (GreaterOrEqualOperator, cs)
         else (GreaterThanOperator, c # cs))
      else if c = CHR ''<'' then
        (if next_is cs CHR ''='' then (LessOrEqualOperator, cs)
         else if next_is cs CHR ''>'' then (NotEqualOperator, cs)
         else (LessThanOperator, c # cs))
      else if c = CHR ''!'' \<and> c = CHR ''='' then (NotEqualOperator, cs)
      else if c = CHR ''='' then (EqualOperator, c # cs)
      else (AssignOperator, c # cs))"

definition is_operator_char :: "char \<Rightarrow> bool" where
  "is_operator_char c =
     (c = CHR '':'' \<or> c = CHR ''<'' \<or> c = CHR ''>'' \<or> c = CHR ''!'' \<or> c = CHR ''='')"

definition quote :: char where
  "quote = CHR 0x27"

definition is_delimiter :: "char \<Rightarrow> bool" where
  "is_delimiter c = (c = CHR 0x20 \<or> c = CHR 0x09 \<or> c = CHR 0x0A)"

text \<open>
  The two loops that remove white space around the keyword in \<^verbatim>\<open>buffer\<close>, of which
  the first \<^verbatim>\<open>index\<close> characters are the text read so far (the model keeps these
  only). With no character there that is not white space, the first loop decrements
  \<^verbatim>\<open>index\<close> below 0, or the second reads \<^verbatim>\<open>buffer[index - 1]\<close> at index 0.
\<close>

definition trim_buffer :: "string \<Rightarrow> undefined_behaviour + string" where
  "trim_buffer buffer =
     (if dropWhile isspace_c buffer = [] then Inl BufferUnderrun
      else Inr (rev (dropWhile isspace_c (rev (dropWhile isspace_c buffer)))))"

definition appendToken :: "Token list \<Rightarrow> string \<Rightarrow> Operator \<Rightarrow> string \<Rightarrow> Token list" where
  "appendToken head kw op v = head @ [\<lparr>keyword = kw, val = v, operator = op\<rparr>]"

text \<open>
  The loop of \<^verbatim>\<open>SQLParser_Parse\<close> at the cursor \<open>query\<close>, with the text read into
  \<^verbatim>\<open>buffer\<close>, the keyword, the list built so far, the last operator and the state.
  \<open>Inr None\<close> is the return through the label \<^verbatim>\<open>abort\<close> (the message
  \<^verbatim>\<open>error: cannot parse query.\<close> and \<^verbatim>\<open>NULL\<close>); \<open>Inr (Some head)\<close> is the
  normal return of the list, where the empty list is \<^verbatim>\<open>NULL\<close> as well.

  In the quote case the inner loop copies the characters after the quote up to the next
  quote and leaves the cursor on it. When there is no next quote, it copies the
  terminator, steps over it and the outer loop goes on reading behind the query.
\<close>

function SQLParser_loop ::
  "string \<Rightarrow> string \<Rightarrow> string \<Rightarrow> Token list \<Rightarrow> Operator \<Rightarrow> ScannerState
    \<Rightarrow> undefined_behaviour + Token list option" where
  "SQLParser_loop [] buffer kw head op state =
     Inr (Some (if state = ScanValue then appendToken head kw op buffer else head))"
| "SQLParser_loop (c # cs) buffer kw head op state =
     (if is_operator_char c then
        (case SQLfindOperator_helper (c # cs) of (op', query) \<Rightarrow>
           if state = ScanToken then
             (case trim_buffer buffer of
                Inl e \<Rightarrow> Inl e
              | Inr kw' \<Rightarrow>
                  SQLParser_loop (dropWhile isspace_c (tl query)) [] kw' head op' ScanValue)
           else Inr None)
      else if c = quote then
        (if state \<noteq> ScanValue then Inr None
         else if quote \<in> set cs then
           SQLParser_loop (tl (dropWhile (\<lambda>d. d \<noteq> quote) cs))
             (buffer @ takeWhile (\<lambda>d. d \<noteq> quote) cs) kw head op state
         else Inl ReadPastTerminator)
      else if is_delimiter c then
        (if state = ScanValue then
           SQLParser_loop cs [] kw (appendToken head kw op buffer) op ScanToken
         else SQLParser_loop cs buffer kw head op state)
      else SQLParser_loop cs (buffer @ [c]) kw head op state)"
  by pat_completeness auto

lemma helper_cursor_length:
  assumes "(op', query) = SQLfindOperator_helper (c # cs)"
  shows "length (dropWhile P (tl query)) < Suc (length cs)"
proof -
  have "length (tl query) \<le> length cs"
    using assms by (auto simp: next_is_def split: list.splits if_splits)
  moreover have "length (dropWhile P (tl query)) \<le> length (tl query)"
    by (rule length_dropWhile_le)
  ultimately show ?thesis by simp
qed

lemma quote_cursor_length: "length (dropWhile P cs) - Suc 0 < Suc (length cs)"
proof -
  have "length (dropWhile P cs) \<le> length cs"
    by (rule length_dropWhile_le)
  then show ?thesis by simp
qed

termination SQLParser_loop
  apply (relation "measure (\<lambda>(query, buffer, kw, head, op, state). length query)")
       apply (simp_all add: helper_cursor_length quote_cursor_length)
  done

definition SQLParser_Parse :: "string \<Rightarrow> undefined_behaviour + Token list option" where
  "SQLParser_Parse query = SQLParser_loop query [] [] [] AssignOperator ScanToken"

section \<open>Schemas, values and the predicate evaluator\<close>

text \<open>
  \<^verbatim>\<open>struct TableStructureInfo\<close>. Its arrays have 128 elements and every schema the
  program handles was set to zero before it was filled, so the model keeps the \<open>count\<close>
  elements that were written; a read of a further element below 128 gives the zero value
  (the empty name, the type \<^verbatim>\<open>Integer\<close>).
\<close>

record TableStructureInfo =
  count :: nat
  columns :: "string list"
  columnTypes :: "FieldType list"
  name :: string

definition column_name_at :: "TableStructureInfo \<Rightarrow> nat \<Rightarrow> string" where
  "column_name_at table i = (if i < length (columns table) then columns table ! i else [])"

definition columnType_at :: "TableStructureInfo \<Rightarrow> nat \<Rightarrow> FieldType" where
  "columnType_at table i =
     (if i < length (columnTypes table) then columnTypes table ! i else Integer)"

text \<open>\<^verbatim>\<open>struct Column\<close> and \<^verbatim>\<open>struct Row\<close>. Of the 128 columns of a row the model
  keeps those that were assigned, which are always the first ones; \<open>zero_column\<close> is an
  element of a row that \<^verbatim>\<open>memset\<close> cleared and nothing assigned.\<close>

record 'f Column =
  cvalue :: "'f Value"
  ctype :: FieldType
  position :: int

record 'f Row =
  index :: int
  row_columns :: "'f Column list"
  columnCount :: nat

definition zero_column :: "'f Column" where
  "zero_column = \<lparr>cvalue = VInteger 0, ctype = Integer, position = 0\<rparr>"

definition column_at :: "'f Row \<Rightarrow> nat \<Rightarrow> 'f Column" where
  "column_at row i = (if i < length (row_columns row) then row_columns row ! i else zero_column)"

text \<open>
  \<^verbatim>\<open>SQLvalueFromStringAndType\<close>. No caller passes \<^verbatim>\<open>NULL\<close>. For a string the
  function drops one leading quote, copies the rest and looks at its last character,
  which does not exist when the copy is empty. The \<^verbatim>\<open>switch\<close> has no case for the
  fifth type value and returns the union as it was declared.
\<close>

definition SQLvalueFromStringAndType ::
  "'f libc \<Rightarrow> string \<Rightarrow> FieldType \<Rightarrow> undefined_behaviour + 'f Value" where
  "SQLvalueFromStringAndType L string type =
     (case type of
        Integer \<Rightarrow> Inr (VInteger (strtol_c string))
      | Boolean \<Rightarrow> Inr (VBoolean (strcmp_c ''True'' string = 0))
      | Number \<Rightarrow> Inr (VNumber (float_of_double L (strtod L string)))
      | String \<Rightarrow>
          (let copy = (if next_is string quote then tl string else string)
           in if copy = [] then Inl EmptyStringIndex
              else if last copy = quote then Inr (VString (butlast copy))
              else Inr (VString copy))
      | InvalidType \<Rightarrow> Inr VUninit)"

text \<open>\<^verbatim>\<open>SQLParser_FindColumn\<close>: the first index below \<^verbatim>\<open>count\<close> whose column has
  the name, or -1.\<close>

definition SQLParser_FindColumn :: "TableStructureInfo \<Rightarrow> string \<Rightarrow> int" where
  "SQLParser_FindColumn table column =
     (case find (\<lambda>i. strcmp_c column (column_name_at table i) = 0) [0..<count table] of
        None \<Rightarrow> - 1
      | Some i \<Rightarrow> int i)"

text \<open>The inner \<^verbatim>\<open>switch\<close> of the cases \<^verbatim>\<open>Integer\<close> and \<^verbatim>\<open>Number\<close> of
  \<^verbatim>\<open>SQLcompareValues\<close>, which are the same text, on the two \<^verbatim>\<open>int\<close> variables
  \<^verbatim>\<open>lhs\<close> and \<^verbatim>\<open>rhs\<close>.\<close>

definition bool_int :: "bool \<Rightarrow> int" where
  "bool_int b = (if b then 1 else 0)"

fun compare_int :: "Operator \<Rightarrow> int \<Rightarrow> int \<Rightarrow> int" where
  "compare_int EqualOperator lhs rhs = bool_int (lhs = rhs)"
| "compare_int NotEqualOperator lhs rhs = bool_int (lhs \<noteq> rhs)"
| "compare_int GreaterThanOperator lhs rhs = bool_int (lhs > rhs)"
| "compare_int GreaterOrEqualOperator lhs rhs = bool_int (lhs \<ge> rhs)"
| "compare_int LessThanOperator lhs rhs = bool_int (lhs < rhs)"
| "compare_int LessOrEqualOperator lhs rhs = bool_int (lhs \<ge> rhs)"
| "compare_int AssignOperator lhs rhs = - 1"
| "compare_int InvalidOperator lhs rhs = - 1"

fun compare_string :: "Operator \<Rightarrow> string \<Rightarrow> string \<Rightarrow> int" where
  "compare_string EqualOperator a b = bool_int (strcmp_c a b = 0)"
| "compare_string NotEqualOperator a b = bool_int (strcmp_c a b \<noteq> 0)"
| "compare_string GreaterThanOperator a b = bool_int (strcmp_c a b > 0)"
| "compare_string GreaterOrEqualOperator a b = bool_int (strcmp_c a b \<ge> 0)"
| "compare_string LessThanOperator a b = bool_int (strcmp_c a b < 0)"
| "compare_string LessOrEqualOperator a b = bool_int (strcmp_c a b \<le> 0)"
| "compare_string AssignOperator a b = - 1"
| "compare_string InvalidOperator a b = - 1"

text \<open>
  \<^verbatim>\<open>SQLcompareValues\<close>: 1 or 0 for the outcome of the comparison, -1 when there is
  none. The token is never \<^verbatim>\<open>NULL\<close>. In the case \<^verbatim>\<open>Number\<close> the two variables
  are declared \<^verbatim>\<open>int\<close>, so the \<^verbatim>\<open>double\<close> that \<^verbatim>\<open>strtod\<close> returns and the
  stored \<^verbatim>\<open>float\<close> are both converted to \<^verbatim>\<open>int\<close> by the assignments. The member
  of the union that a case reads is the one its type names.
\<close>

definition SQLcompareValues ::
  "'f libc \<Rightarrow> Token \<Rightarrow> 'f Value \<Rightarrow> FieldType \<Rightarrow> undefined_behaviour + int" where
  "SQLcompareValues L list v type =
     (if operator list = InvalidOperator then Inr (- 1)
      else case type of
        Integer \<Rightarrow>
          (case v of
             VInteger rhs \<Rightarrow> Inr (compare_int (operator list) (strtol_c (val list)) rhs)
           | _ \<Rightarrow> Inl InactiveUnionMember)
      | Number \<Rightarrow>
          (case v of
             VNumber x \<Rightarrow>
               (case (int_of_float L (strtod L (val list)), int_of_float L x) of
                  (Some lhs, Some rhs) \<Rightarrow> Inr (compare_int (operator list) lhs rhs)
                | _ \<Rightarrow> Inl FloatToIntRange)
           | _ \<Rightarrow> Inl InactiveUnionMember)
      | String \<Rightarrow>
          (case v of
             VString s \<Rightarrow> Inr (compare_string (operator list) (val list) s)
           | _ \<Rightarrow> Inl InactiveUnionMember)
      | Boolean \<Rightarrow>
          (case v of
             VBoolean b \<Rightarrow>
               (if operator list = AssignOperator then Inr (- 1)
                else Inr (bool_int ((strcmp_c ''True'' (val list) = 0) = b)))
           | _ \<Rightarrow> Inl InactiveUnionMember)
      | InvalidType \<Rightarrow> Inr 1)"

section \<open>Rows as text\<close>

text \<open>What \<^verbatim>\<open>%d\<close> prints for an \<^verbatim>\<open>int\<close>.\<close>

definition digit_char :: "nat \<Rightarrow> char" where
  "digit_char n = ''0123456789'' ! n"

fun digits_of :: "nat \<Rightarrow> string" where
  "digits_of n =
     (if n < 10 then [digit_char n]
      else digits_of (n div 10) @ [digit_char (n mod 10)])"

declare digits_of.simps [simp del]

definition printf_d :: "int \<Rightarrow> string" where
  "printf_d i = (if i < 0 then CHR ''-'' # digits_of (nat (- i)) else digits_of (nat i))"

text \<open>
  The body of the loop of \<^verbatim>\<open>SQLwriteRowToFile\<close>: the text printed for one column.
  A type without a case prints nothing.
\<close>

definition write_column :: "'f libc \<Rightarrow> 'f Column \<Rightarrow> undefined_behaviour + string" where
  "write_column L column =
     (case ctype column of
        Integer \<Rightarrow>
          (case cvalue column of
             VInteger i \<Rightarrow> Inr (printf_d i @ '';'')
           | _ \<Rightarrow> Inl InactiveUnionMember)
      | Boolean \<Rightarrow>
          (case cvalue column of
             VBoolean b \<Rightarrow> Inr ((if b then ''True'' else ''False'') @ '';'')
           | _ \<Rightarrow> Inl InactiveUnionMember)
      | Number \<Rightarrow>
          (case cvalue column of
             VNumber x \<Rightarrow> Inr (printf_g L x @ '';'')
           | _ \<Rightarrow> Inl InactiveUnionMember)
      | String \<Rightarrow>
          (case cvalue column of
             VString s \<Rightarrow> Inr ([quote] @ s @ [quote] @ '';'')
           | _ \<Rightarrow> Inl InactiveUnionMember)
      | InvalidType \<Rightarrow> Inr [])"

fun write_columns :: "'f libc \<Rightarrow> 'f Column list \<Rightarrow> undefined_behaviour + string" where
  "write_columns L [] = Inr []"
| "write_columns L (column # rest) =
     (case write_column L column of
        Inl e \<Rightarrow> Inl e
      | Inr out \<Rightarrow>
          (case write_columns L rest of
             Inl e \<Rightarrow> Inl e
           | Inr outs \<Rightarrow> Inr (out @ outs)))"

text \<open>
  \<^verbatim>\<open>SQLwriteRowToFile\<close>: the text that the function prints to the file, which is the
  index, the columns below \<^verbatim>\<open>columnCount\<close> and a newline. A \<^verbatim>\<open>columnCount\<close> above
  128 takes the loop out of the array.
\<close>

definition SQLwriteRowToFile :: "'f libc \<Rightarrow> 'f Row \<Rightarrow> undefined_behaviour + string" where
  "SQLwriteRowToFile L row =
     (if columnCount row > 128 then Inl ArrayIndexOutOfBounds
      else case write_columns L (map (column_at row) [0..<columnCount row]) of
             Inl e \<Rightarrow> Inl e
           | Inr out \<Rightarrow> Inr (printf_d (index row) @ '';'' @ out @ [CHR 0x0A]))"

text \<open>
  \<^verbatim>\<open>fgets(line, n, file)\<close> with \<open>k = n - 1\<close>: at most \<open>k\<close> characters, up to and
  with the first newline; the result is the line and the rest of the file.
\<close>

fun fgets_c :: "nat \<Rightarrow> string \<Rightarrow> string \<times> string" where
  "fgets_c k [] = ([], [])"
| "fgets_c k (c # cs) =
     (if k = 0 then ([], c # cs)
      else if c = CHR 0x0A then ([c], cs)
      else case fgets_c (k - 1) cs of (line, rest) \<Rightarrow> (c # line, rest))"

text \<open>The tokens that the calls of \<^verbatim>\<open>strtok(pointer, ";")\<close> return one after the
  other: the maximal runs of characters other than the semicolon.\<close>

fun strtok_from :: "string \<Rightarrow> string \<Rightarrow> string list" where
  "strtok_from token [] = (if token = [] then [] else [token])"
| "strtok_from token (c # cs) =
     (if c = CHR '';'' then
        (if token = [] then strtok_from [] cs else token # strtok_from [] cs)
      else strtok_from (token @ [c]) cs)"

definition strtok_all :: "string \<Rightarrow> string list" where
  "strtok_all line = strtok_from [] line"

text \<open>
  The loop of \<^verbatim>\<open>SQLreadRow\<close> over the tokens after the first, \<open>i\<close> being
  \<^verbatim>\<open>columnIndex\<close>. Every token makes a column, also the newline that ends the line.
\<close>

fun read_columns ::
  "'f libc \<Rightarrow> TableStructureInfo \<Rightarrow> nat \<Rightarrow> string list \<Rightarrow> undefined_behaviour + 'f Column list"
  where
  "read_columns L table i [] = Inr []"
| "read_columns L table i (token # tokens) =
     (if i \<ge> 128 then Inl ArrayIndexOutOfBounds
      else case SQLvalueFromStringAndType L token (columnType_at table i) of
        Inl e \<Rightarrow> Inl e
      | Inr v \<Rightarrow>
          (case read_columns L table (Suc i) tokens of
             Inl e \<Rightarrow> Inl e
           | Inr rest \<Rightarrow>
               Inr (\<lparr>cvalue = v, ctype = columnType_at table i, position = int i\<rparr> # rest)))"

text \<open>
  \<^verbatim>\<open>size_t\<close> arithmetic wraps around: \<^verbatim>\<open>current.columnCount -= 1\<close> on a row
  without columns gives \<^verbatim>\<open>SIZE_MAX\<close> (written here for 64 bits; the program only
  compares it with numbers up to 128).
\<close>

definition SIZE_MAX :: nat where
  "SIZE_MAX = 18446744073709551615"

definition size_t_decrement :: "nat \<Rightarrow> nat" where
  "size_t_decrement n = (if n = 0 then SIZE_MAX else n - 1)"

text \<open>
  \<^verbatim>\<open>SQLreadRow\<close> on the unread part of the file: \<open>None\<close> is the return of 0 at the
  end of the file, otherwise the row and what remains to read. The line buffer has
  \<^verbatim>\<open>2 + 128 * count\<close> bytes.
\<close>

definition SQLreadRow ::
  "'f libc \<Rightarrow> TableStructureInfo \<Rightarrow> string \<Rightarrow> undefined_behaviour + ('f Row \<times> string) option"
  where
  "SQLreadRow L table file =
     (if file = [] then Inr None
      else case fgets_c (1 + 128 * count table) file of (line, rest) \<Rightarrow>
        (case strtok_all line of
           [] \<Rightarrow> Inr (Some (\<lparr>index = 0, row_columns = [], columnCount = size_t_decrement 0\<rparr>, rest))
         | first # tokens \<Rightarrow>
             (case read_columns L table 0 tokens of
                Inl e \<Rightarrow> Inl e
              | Inr cols \<Rightarrow>
                  Inr (Some (\<lparr>index = strtol_c first, row_columns = cols,
                              columnCount = size_t_decrement (length cols)\<rparr>, rest)))))"

section \<open>Storage\<close>

text \<open>
  The durable state. The catalog file \<^verbatim>\<open>__tables_data.dat\<close> is a sequence of
  \<^verbatim>\<open>struct TableStructureInfo\<close> records (\<open>None\<close> when the file does not exist);
  every other file is text, found by its name. \<open>unwritable\<close> holds of the names that
  \<^verbatim>\<open>fopen\<close> cannot open for writing or appending and that \<^verbatim>\<open>remove\<close> cannot
  delete (an invalid name, a read-only file, a directory). A file opens for reading
  when it exists. What is printed to a file that is open arrives in it.
\<close>

record filesys =
  catalog :: "TableStructureInfo list option"
  files :: "string \<Rightarrow> string option"
  unwritable :: "string \<Rightarrow> bool"

definition catalog_name :: string where
  "catalog_name = ''__tables_data.dat''"

text \<open>\<^verbatim>\<open>remove\<close> and \<^verbatim>\<open>rename\<close> of the Windows runtime, which does not rename
  onto a file that exists. The program ignores their results.\<close>

definition remove_c :: "string \<Rightarrow> filesys \<Rightarrow> filesys" where
  "remove_c n fs =
     (if files fs n \<noteq> None \<and> \<not> unwritable fs n then fs\<lparr>files := (files fs)(n := None)\<rparr>
      else fs)"

definition rename_c :: "string \<Rightarrow> string \<Rightarrow> filesys \<Rightarrow> filesys" where
  "rename_c old new fs =
     (if files fs old \<noteq> None \<and> files fs new = None \<and> \<not> unwritable fs new
         \<and> \<not> unwritable fs old
      then fs\<lparr>files := (files fs)(old := None, new := files fs old)\<rparr>
      else fs)"

text \<open>
  \<^verbatim>\<open>_mktemp\<close> on the template \<^verbatim>\<open>__database_Temporary_XXXXXX\<close>: the first
  \<^verbatim>\<open>X\<close> becomes a letter, the other five come from the process; the letters are
  tried from \<^verbatim>\<open>a\<close> on until no file has the name, and the result is \<^verbatim>\<open>NULL\<close>
  when all 26 names exist.
\<close>

definition mktemp_c :: "'f libc \<Rightarrow> filesys \<Rightarrow> string option" where
  "mktemp_c L fs =
     find (\<lambda>n. files fs n = None)
       (map (\<lambda>c. ''__database_Temporary_'' @ [c] @ mktemp_id L) ''abcdefghijklmnopqrstuvwxyz'')"

section \<open>Scanning and filtering a table\<close>

text \<open>The loop of \<^verbatim>\<open>SQLfilterRow\<close> over the tokens after the first one.\<close>

fun filter_conditions ::
  "'f libc \<Rightarrow> TableStructureInfo \<Rightarrow> 'f Row \<Rightarrow> Token list \<Rightarrow> undefined_behaviour + int" where
  "filter_conditions L table row [] = Inr 1"
| "filter_conditions L table row (list # rest) =
     (let pos = SQLParser_FindColumn table (keyword list) in
      if pos \<noteq> - 1 then
        (let column = column_at row (nat pos) in
         case SQLcompareValues L list (cvalue column) (ctype column) of
           Inl e \<Rightarrow> Inl e
         | Inr compared \<Rightarrow>
             if compared \<noteq> - 1 \<and> pos = position column \<and> compared = 0 then Inr 0
             else filter_conditions L table row rest)
      else filter_conditions L table row rest)"

text \<open>\<^verbatim>\<open>SQLfilterRow\<close>: 0 when a condition after the first token compares to 0 on the
  row, 1 otherwise (also with no condition); 0 for the \<^verbatim>\<open>NULL\<close> list.\<close>

definition SQLfilterRow ::
  "'f libc \<Rightarrow> Token list \<Rightarrow> TableStructureInfo \<Rightarrow> 'f Row \<Rightarrow> undefined_behaviour + int" where
  "SQLfilterRow L list table row =
     (case list of
        [] \<Rightarrow> Inr 0
      | first # rest \<Rightarrow> filter_conditions L table row rest)"

lemma fgets_c_rest_length: "fgets_c k cs = (line, rest) \<Longrightarrow> length rest \<le> length cs"
proof (induction k cs arbitrary: line rest rule: fgets_c.induct)
  case (2 k c cs)
  then show ?case
    by (auto split: if_splits prod.splits)
qed auto

lemma fgets_c_progress:
  "fgets_c (Suc k) (c # cs) = (line, rest) \<Longrightarrow> length rest < Suc (length cs)"
  using fgets_c_rest_length [of k cs]
  by (auto split: if_splits prod.splits simp: less_Suc_eq_le)

lemma SQLreadRow_progress:
  assumes "SQLreadRow L table unread = Inr (Some (row, rest))"
  shows "length rest < length unread"
proof (cases unread)
  case Nil
  with assms show ?thesis by (simp add: SQLreadRow_def)
next
  case (Cons c cs)
  obtain line r where fg: "fgets_c (Suc (128 * count table)) (c # cs) = (line, r)"
    by (cases "fgets_c (Suc (128 * count table)) (c # cs)")
  then have "length r < Suc (length cs)"
    by (rule fgets_c_progress)
  moreover have "rest = r"
    using assms Cons fg
    by (auto simp: SQLreadRow_def split: list.splits sum.splits)
  ultimately show ?thesis using Cons by simp
qed

text \<open>
  The loop of \<^verbatim>\<open>SQLloadTable\<close> on the unread part of the file: the rows that pass
  the filter (all of them when the list is \<^verbatim>\<open>NULL\<close>, here \<open>None\<close>), in file order.
\<close>

function load_rows ::
  "'f libc \<Rightarrow> Token list option \<Rightarrow> TableStructureInfo \<Rightarrow> string
    \<Rightarrow> undefined_behaviour + 'f Row list" where
  "load_rows L list table file =
     (case SQLreadRow L table file of
        Inl e \<Rightarrow> Inl e
      | Inr None \<Rightarrow> Inr []
      | Inr (Some (row, rest)) \<Rightarrow>
          (case (case list of None \<Rightarrow> Inr 1 | Some l \<Rightarrow> SQLfilterRow L l table row) of
             Inl e \<Rightarrow> Inl e
           | Inr keep \<Rightarrow>
               (case load_rows L list table rest of
                  Inl e \<Rightarrow> Inl e
                | Inr rows \<Rightarrow> Inr (if keep = 0 then rows else row # rows))))"
  by pat_completeness auto

termination load_rows
  apply (relation "measure (\<lambda>(L, list, table, unread). length unread)")
   apply (auto dest: SQLreadRow_progress)
  done

declare load_rows.simps [simp del]

text \<open>
  \<^verbatim>\<open>SQLloadTable\<close>. The function assigns \<^verbatim>\<open>rowCount\<close> when it stores a row and
  nowhere else: when the file does not open, and when no row is stored, the table it
  returns has an indeterminate \<^verbatim>\<open>rowCount\<close>, which every caller reads.
\<close>

definition SQLloadTable ::
  "'f libc \<Rightarrow> Token list option \<Rightarrow> TableStructureInfo \<Rightarrow> filesys
    \<Rightarrow> undefined_behaviour + 'f Row list" where
  "SQLloadTable L list table fs =
     (case files fs (name table) of
        None \<Rightarrow> Inl UninitialisedTable
      | Some file \<Rightarrow>
          (case load_rows L list table file of
             Inl e \<Rightarrow> Inl e
           | Inr [] \<Rightarrow> Inl UninitialisedTable
           | Inr (row # rows) \<Rightarrow> Inr (row # rows)))"

section \<open>The executors\<close>

text \<open>The diagnostics that the program prints to the standard output are not part of
  the model.\<close>

definition SQLisValidRow :: "Token list \<Rightarrow> TableStructureInfo \<Rightarrow> 'f Row \<Rightarrow> int" where
  "SQLisValidRow list table row =
     (case list of
        [] \<Rightarrow> 1
      | first # rest \<Rightarrow>
          if columnCount row > count table then 0
          else if SQLParser_FindColumn table (keyword first) = - 1 then 0
          else 1)"

definition SQLcheckOperator :: "Operator \<Rightarrow> Operator \<Rightarrow> int" where
  "SQLcheckOperator lhs rhs = bool_int (lhs = rhs)"

text \<open>The assignment \<^verbatim>\<open>row->columns[i] = column\<close>, for \<open>i\<close> below 128.\<close>

definition set_column :: "'f Row \<Rightarrow> nat \<Rightarrow> 'f Column \<Rightarrow> 'f Row" where
  "set_column row i column =
     row\<lparr>row_columns :=
           (row_columns row @ replicate (Suc i - length (row_columns row)) zero_column)
             [i := column]\<rparr>"

text \<open>\<^verbatim>\<open>SQLwriteRow\<close>: the row is appended to the file of the table, which
  \<^verbatim>\<open>fopen\<close> creates when it does not exist; nothing happens when the file does not
  open.\<close>

definition fopen_write_fails :: "filesys \<Rightarrow> string \<Rightarrow> bool" where
  "fopen_write_fails fs n = (n = [] \<or> unwritable fs n)"

definition file_text :: "filesys \<Rightarrow> string \<Rightarrow> string" where
  "file_text fs n = (case files fs n of None \<Rightarrow> [] | Some content \<Rightarrow> content)"

definition SQLwriteRow ::
  "'f libc \<Rightarrow> string \<Rightarrow> 'f Row \<Rightarrow> filesys \<Rightarrow> undefined_behaviour + filesys" where
  "SQLwriteRow L table row fs =
     (if fopen_write_fails fs table then Inr fs
      else case SQLwriteRowToFile L row of
             Inl e \<Rightarrow> Inl e
           | Inr out \<Rightarrow> Inr (fs\<lparr>files := (files fs)(table := Some (file_text fs table @ out))\<rparr>))"

text \<open>
  The loop of \<^verbatim>\<open>SQLinsert\<close> at the token \<open>list\<close>, with the row built so far;
  \<open>Inr None\<close> is one of the two \<^verbatim>\<open>return\<close> statements in the loop. The type of a
  value is the one of the column with the number of the assignment; the validity check
  comes before the column is added.
\<close>

fun insert_columns ::
  "'f libc \<Rightarrow> TableStructureInfo \<Rightarrow> Token list \<Rightarrow> 'f Row \<Rightarrow> undefined_behaviour + 'f Row option"
  where
  "insert_columns L table [] row = Inr (Some row)"
| "insert_columns L table (list # rest) row =
     (if SQLcheckOperator (operator list) AssignOperator = 0 then Inr None
      else if SQLisValidRow (list # rest) table row = 0 then Inr None
      else if columnCount row \<ge> 128 then Inl ArrayIndexOutOfBounds
      else case SQLvalueFromStringAndType L (val list) (columnType_at table (columnCount row)) of
        Inl e \<Rightarrow> Inl e
      | Inr v \<Rightarrow>
          insert_columns L table rest
            ((set_column row (columnCount row)
                \<lparr>cvalue = v, ctype = columnType_at table (columnCount row),
                 position = SQLParser_FindColumn table (keyword list)\<rparr>)
             \<lparr>columnCount := columnCount row + 1\<rparr>))"

definition SQLinsert ::
  "'f libc \<Rightarrow> Token list \<Rightarrow> TableStructureInfo \<Rightarrow> filesys \<Rightarrow> undefined_behaviour + filesys" where
  "SQLinsert L list table fs =
     (case list of
        [] \<Rightarrow> Inr fs
      | first # rest \<Rightarrow>
          (case insert_columns L table rest \<lparr>index = 0, row_columns = [], columnCount = 0\<rparr> of
             Inl e \<Rightarrow> Inl e
           | Inr None \<Rightarrow> Inr fs
           | Inr (Some row) \<Rightarrow> SQLwriteRow L (name table) row fs))"

text \<open>\<^verbatim>\<open>SQLupdateRowAndWriteToFile\<close>: the loop over the tokens, then the row as
  text.\<close>

fun update_row ::
  "'f libc \<Rightarrow> TableStructureInfo \<Rightarrow> Token list \<Rightarrow> 'f Row \<Rightarrow> undefined_behaviour + 'f Row" where
  "update_row L table [] row = Inr row"
| "update_row L table (list # rest) row =
     (let i = SQLParser_FindColumn table (keyword list) in
      if operator list = AssignOperator \<and> i \<noteq> - 1 then
        (case SQLvalueFromStringAndType L (val list) (columnType_at table (nat i)) of
           Inl e \<Rightarrow> Inl e
         | Inr v \<Rightarrow>
             update_row L table rest
               (set_column row (nat i) ((column_at row (nat i))\<lparr>cvalue := v\<rparr>)))
      else update_row L table rest row)"

definition SQLupdateRowAndWriteToFile ::
  "'f libc \<Rightarrow> TableStructureInfo \<Rightarrow> Token list \<Rightarrow> 'f Row \<Rightarrow> undefined_behaviour + string" where
  "SQLupdateRowAndWriteToFile L table list row =
     (case update_row L table list row of
        Inl e \<Rightarrow> Inl e
      | Inr row' \<Rightarrow> SQLwriteRowToFile L row')"

text \<open>
  The loops of \<^verbatim>\<open>SQLdelete\<close> and \<^verbatim>\<open>SQLupdate\<close> over the rows of the table: the
  text printed to the temporary file, and whether the loop came to its end (\<open>True\<close>) or
  left through \<^verbatim>\<open>goto abort\<close>.
\<close>

fun delete_rows ::
  "'f libc \<Rightarrow> Token list \<Rightarrow> TableStructureInfo \<Rightarrow> 'f Row list
    \<Rightarrow> undefined_behaviour + (string \<times> bool)" where
  "delete_rows L list table [] = Inr ([], True)"
| "delete_rows L list table (row # rows) =
     (case list of
        [] \<Rightarrow> Inl NullDereference
      | first # conditions \<Rightarrow>
          if SQLisValidRow conditions table row = 0 then Inr ([], False)
          else case SQLfilterRow L list table row of
            Inl e \<Rightarrow> Inl e
          | Inr matched \<Rightarrow>
              (case (if matched = 0 then SQLwriteRowToFile L row else Inr []) of
                 Inl e \<Rightarrow> Inl e
               | Inr out \<Rightarrow>
                   (case delete_rows L list table rows of
                      Inl e \<Rightarrow> Inl e
                    | Inr (outs, finished) \<Rightarrow> Inr (out @ outs, finished))))"

fun update_rows ::
  "'f libc \<Rightarrow> Token list \<Rightarrow> TableStructureInfo \<Rightarrow> 'f Row list
    \<Rightarrow> undefined_behaviour + (string \<times> bool)" where
  "update_rows L list table [] = Inr ([], True)"
| "update_rows L list table (row # rows) =
     (case list of
        [] \<Rightarrow> Inl NullDereference
      | first # conditions \<Rightarrow>
          if SQLisValidRow conditions table row = 0 then Inr ([], False)
          else case SQLfilterRow L list table row of
            Inl e \<Rightarrow> Inl e
          | Inr matched \<Rightarrow>
              (case (if matched = 0 then SQLwriteRowToFile L row
                     else SQLupdateRowAndWriteToFile L table conditions row) of
                 Inl e \<Rightarrow> Inl e
               | Inr out \<Rightarrow>
                   (case update_rows L list table rows of
                      Inl e \<Rightarrow> Inl e
                    | Inr (outs, finished) \<Rightarrow> Inr (out @ outs, finished))))"

text \<open>
  \<^verbatim>\<open>SQLdelete\<close> and \<^verbatim>\<open>SQLupdate\<close>, which differ in the loop only: the
  temporary file is named and opened for writing (the function returns when either
  fails), the table is loaded without a filter, the loop prints to the temporary file;
  at its end the file of the table is removed and the temporary file renamed to it, at
  \<^verbatim>\<open>abort\<close> the temporary file is removed.
\<close>

definition rewrite_table ::
  "'f libc \<Rightarrow> TableStructureInfo \<Rightarrow> filesys
    \<Rightarrow> ('f Row list \<Rightarrow> undefined_behaviour + (string \<times> bool))
    \<Rightarrow> undefined_behaviour + filesys" where
  "rewrite_table L table fs loop =
     (case mktemp_c L fs of
        None \<Rightarrow> Inr fs
      | Some filename \<Rightarrow>
          if fopen_write_fails fs filename then Inr fs
          else
            (let fs1 = fs\<lparr>files := (files fs)(filename := Some [])\<rparr> in
             case SQLloadTable L None table fs1 of
               Inl e \<Rightarrow> Inl e
             | Inr rows \<Rightarrow>
                 (case loop rows of
                    Inl e \<Rightarrow> Inl e
                  | Inr (out, finished) \<Rightarrow>
                      (let fs2 = fs1\<lparr>files := (files fs1)(filename := Some out)\<rparr> in
                       if finished
                       then Inr (rename_c filename (name table) (remove_c (name table) fs2))
                       else Inr (remove_c filename fs2)))))"

definition SQLdelete ::
  "'f libc \<Rightarrow> Token list \<Rightarrow> TableStructureInfo \<Rightarrow> filesys \<Rightarrow> undefined_behaviour + filesys" where
  "SQLdelete L list table fs = rewrite_table L table fs (delete_rows L list table)"

definition SQLupdate ::
  "'f libc \<Rightarrow> Token list \<Rightarrow> TableStructureInfo \<Rightarrow> filesys \<Rightarrow> undefined_behaviour + filesys" where
  "SQLupdate L list table fs = rewrite_table L table fs (update_rows L list table)"

text \<open>\<^verbatim>\<open>SQLwriteRowToStdout\<close> and \<^verbatim>\<open>SQLprintTable\<close>: the text printed for the
  rows, each column in a field of ten characters.\<close>

definition pad_left :: "nat \<Rightarrow> string \<Rightarrow> string" where
  "pad_left n s = replicate (n - length s) CHR 0x20 @ s"

definition pad_right :: "nat \<Rightarrow> string \<Rightarrow> string" where
  "pad_right n s = s @ replicate (n - length s) CHR 0x20"

definition print_column :: "'f libc \<Rightarrow> 'f Column \<Rightarrow> undefined_behaviour + string" where
  "print_column L column =
     (case ctype column of
        Integer \<Rightarrow>
          (case cvalue column of
             VInteger i \<Rightarrow> Inr (pad_left 10 (printf_d i) @ [CHR ''|'', CHR 0x09])
           | _ \<Rightarrow> Inl InactiveUnionMember)
      | Boolean \<Rightarrow>
          (case cvalue column of
             VBoolean b \<Rightarrow> Inr (pad_right 10 (if b then ''True'' else ''False'') @ [CHR ''|'', CHR 0x09])
           | _ \<Rightarrow> Inl InactiveUnionMember)
      | Number \<Rightarrow>
          (case cvalue column of
             VNumber x \<Rightarrow> Inr (pad_left 10 (printf_g L x) @ [CHR ''|'', CHR 0x09])
           | _ \<Rightarrow> Inl InactiveUnionMember)
      | String \<Rightarrow>
          (case cvalue column of
             VString s \<Rightarrow> Inr (pad_right 10 s @ [CHR ''|'', CHR 0x09])
           | _ \<Rightarrow> Inl InactiveUnionMember)
      | InvalidType \<Rightarrow> Inr [])"

fun print_columns :: "'f libc \<Rightarrow> 'f Column list \<Rightarrow> undefined_behaviour + string" where
  "print_columns L [] = Inr []"
| "print_columns L (column # rest) =
     (case print_column L column of
        Inl e \<Rightarrow> Inl e
      | Inr out \<Rightarrow>
          (case print_columns L rest of
             Inl e \<Rightarrow> Inl e
           | Inr outs \<Rightarrow> Inr (out @ outs)))"

definition SQLwriteRowToStdout :: "'f libc \<Rightarrow> 'f Row \<Rightarrow> undefined_behaviour + string" where
  "SQLwriteRowToStdout L row =
     (if columnCount row > 128 then Inl ArrayIndexOutOfBounds
      else case print_columns L (map (column_at row) [0..<columnCount row]) of
             Inl e \<Rightarrow> Inl e
           | Inr out \<Rightarrow> Inr (out @ [CHR 0x0A]))"

fun SQLprintTable :: "'f libc \<Rightarrow> 'f Row list \<Rightarrow> undefined_behaviour + string" where
  "SQLprintTable L [] = Inr []"
| "SQLprintTable L (row # rows) =
     (case SQLwriteRowToStdout L row of
        Inl e \<Rightarrow> Inl e
      | Inr out \<Rightarrow>
          (case SQLprintTable L rows of
             Inl e \<Rightarrow> Inl e
           | Inr outs \<Rightarrow> Inr (out @ outs)))"

text \<open>\<^verbatim>\<open>SQLselect\<close> loads the rows that pass the filter and prints them; the result
  is the text printed.\<close>

definition SQLselect ::
  "'f libc \<Rightarrow> Token list \<Rightarrow> TableStructureInfo \<Rightarrow> filesys \<Rightarrow> undefined_behaviour + string"
  where
  "SQLselect L list table fs =
     (case SQLloadTable L (Some list) table fs of
        Inl e \<Rightarrow> Inl e
      | Inr rows \<Rightarrow> SQLprintTable L rows)"

section \<open>The classifier and the catalog\<close>

text \<open>
  The two tables and \<^verbatim>\<open>SQLParser_FindInMap\<close>, with the enumerators as the integers
  they are: \<^verbatim>\<open>bsearch\<close> on a table sorted by name finds the entry with the name,
  and the result is \<^verbatim>\<open>Invalid\<close>, which is 5, when there is none.
\<close>

definition QueryTypes :: "(string \<times> int) list" where
  "QueryTypes = [(''DATASET'', 0), (''DELETE'', 2), (''INSERT_INTO'', 3), (''SELECT'', 1),
                 (''UPDATE'', 4)]"

definition DataTypes :: "(string \<times> int) list" where
  "DataTypes = [(''BOOLEAN'', 3), (''INTEGER'', 0), (''NUMBER'', 1), (''STRING'', 2)]"

definition SQLParser_FindInMap :: "string \<Rightarrow> (string \<times> int) list \<Rightarrow> int" where
  "SQLParser_FindInMap query table =
     (case find (\<lambda>entry. strcmp_c query (fst entry) = 0) table of
        None \<Rightarrow> 5
      | Some entry \<Rightarrow> snd entry)"

definition QueryType_of_int :: "int \<Rightarrow> QueryType" where
  "QueryType_of_int i =
     (if i = 0 then Create else if i = 1 then Select else if i = 2 then Delete
      else if i = 3 then Insert else if i = 4 then Update else Invalid)"

definition FieldType_of_int :: "int \<Rightarrow> FieldType" where
  "FieldType_of_int i =
     (if i = 0 then Integer else if i = 1 then Number else if i = 2 then String
      else if i = 3 then Boolean else InvalidType)"

definition SQLParser_GetQueryType :: "string \<Rightarrow> QueryType" where
  "SQLParser_GetQueryType query = QueryType_of_int (SQLParser_FindInMap query QueryTypes)"

definition SQLParser_GetFieldType :: "string \<Rightarrow> FieldType" where
  "SQLParser_GetFieldType query = FieldType_of_int (SQLParser_FindInMap query DataTypes)"

text \<open>
  The loop of \<^verbatim>\<open>SQLParser_CreateTable\<close> over the column tokens, with the schema
  filled so far; \<open>Inr None\<close> is \<^verbatim>\<open>goto abort\<close>. The bound on the length of a column
  name is \<^verbatim>\<open>sizeof(info.columns) - 1\<close>, the size of the whole array of names, and
  the bound on the count is \<^verbatim>\<open>sizeof(info.columnTypes)\<close>, four bytes a type; a name
  of 128 characters or more does not fit its element with a terminator, and a 129th
  column is written outside of the arrays.
\<close>

fun create_columns ::
  "Token list \<Rightarrow> TableStructureInfo \<Rightarrow> undefined_behaviour + TableStructureInfo option" where
  "create_columns [] info = Inr (Some info)"
| "create_columns (current # rest) info =
     (if length (keyword current) > 128 * 128 - 1 then Inr None
      else if count info \<ge> 128 \<or> length (keyword current) > 127
      then Inl ArrayIndexOutOfBounds
      else
        (let info' = info\<lparr>columns := columns info @ [keyword current],
                          columnTypes := columnTypes info @ [SQLParser_GetFieldType (val current)],
                          count := count info + 1\<rparr>
         in if count info' > 128 * 4 then Inr None else create_columns rest info'))"

text \<open>
  \<^verbatim>\<open>SQLParser_CreateTable\<close>: the return value and the storage. The catalog is
  opened for appending before anything is checked, which creates it. The length of the
  table name is taken from \<^verbatim>\<open>list->keyword\<close> and that many bytes are copied from
  \<^verbatim>\<open>list->value\<close> into the cleared name: the stored name is that prefix of the
  value, and the copy reads behind the value when the value with its terminator is
  shorter.
\<close>

definition SQLParser_CreateTable ::
  "Token list \<Rightarrow> filesys \<Rightarrow> undefined_behaviour + (int \<times> filesys)" where
  "SQLParser_CreateTable list fs =
     (case list of
        [] \<Rightarrow> Inr (1, fs)
      | first # rest \<Rightarrow>
          if fopen_write_fails fs catalog_name then Inr (1, fs)
          else
            (let records = (case catalog fs of None \<Rightarrow> [] | Some rs \<Rightarrow> rs);
                 fs1 = fs\<lparr>catalog := Some records\<rparr>;
                 n = length (keyword first)
             in if n > 127 then Inr (1, fs1)
                else if n > length (val first) + 1 then Inl ReadPastTerminator
                else
                  (case create_columns rest
                          \<lparr>count = 0, columns = [], columnTypes = [], name = take n (val first)\<rparr> of
                     Inl e \<Rightarrow> Inl e
                   | Inr None \<Rightarrow> Inr (1, fs1)
                   | Inr (Some info) \<Rightarrow> Inr (0, fs\<lparr>catalog := Some (records @ [info])\<rparr>))))"

text \<open>\<^verbatim>\<open>SQLParser_FindTable\<close>: the first record of the catalog with the name, or
  the cleared structure.\<close>

definition zero_table :: TableStructureInfo where
  "zero_table = \<lparr>count = 0, columns = [], columnTypes = [], name = []\<rparr>"

definition SQLParser_FindTable :: "string \<Rightarrow> filesys \<Rightarrow> TableStructureInfo" where
  "SQLParser_FindTable n fs =
     (case catalog fs of
        None \<Rightarrow> zero_table
      | Some records \<Rightarrow>
          (case find (\<lambda>table. strcmp_c n (name table) = 0) records of
             None \<Rightarrow> zero_table
           | Some table \<Rightarrow> table))"

section \<open>The entry point\<close>

text \<open>\<^verbatim>\<open>SQLExecuteQuery\<close>: the value it returns and the storage it leaves.\<close>

definition SQLExecuteQuery ::
  "'f libc \<Rightarrow> string \<Rightarrow> filesys \<Rightarrow> undefined_behaviour + (int \<times> filesys)" where
  "SQLExecuteQuery L query fs =
     (case SQLParser_Parse query of
        Inl e \<Rightarrow> Inl e
      | Inr None \<Rightarrow> Inr (1, fs)
      | Inr (Some []) \<Rightarrow> Inr (1, fs)
      | Inr (Some (first # rest)) \<Rightarrow>
          (let list = first # rest; table = SQLParser_FindTable (val first) fs in
           case SQLParser_GetQueryType (keyword first) of
             Create \<Rightarrow>
               (if name table = [] then
                  (case SQLParser_CreateTable list fs of
                     Inl e \<Rightarrow> Inl e
                   | Inr (failed, fs') \<Rightarrow> Inr (0, fs'))
                else Inr (0, fs))
           | Select \<Rightarrow>
               (case SQLselect L list table fs of
                  Inl e \<Rightarrow> Inl e
                | Inr printed \<Rightarrow> Inr (0, fs))
           | Update \<Rightarrow>
               (case SQLupdate L list table fs of
                  Inl e \<Rightarrow> Inl e
                | Inr fs' \<Rightarrow> Inr (0, fs'))
           | Insert \<Rightarrow>
               (case SQLinsert L list table fs of
                  Inl e \<Rightarrow> Inl e
                | Inr fs' \<Rightarrow> Inr (0, fs'))
           | Delete \<Rightarrow>
               (case SQLdelete L list table fs of
                  Inl e \<Rightarrow> Inl e
                | Inr fs' \<Rightarrow> Inr (0, fs'))
           | Invalid \<Rightarrow> Inr (0, fs)))"

section \<open>A runtime for the examples\<close>

text \<open>
  The examples below run the model with floating values as rationals:
  \<open>strtod_decimal\<close> reads a decimal literal without exponent and gives its exact value,
  the conversion to \<^verbatim>\<open>float\<close> keeps it, the conversion to \<^verbatim>\<open>int\<close> drops the
  fraction, and \<open>printf_g_whole\<close> prints a whole number of at most six digits as
  \<^verbatim>\<open>%g\<close> does (and nothing for another value). On numbers that binary floating
  point holds exactly, such as 1.5 and 1.25, this is what the C runtime computes.
\<close>

definition strtod_decimal :: "string \<Rightarrow> rat" where
  "strtod_decimal s =
     (let s1 = dropWhile isspace_c s;
          neg = (s1 \<noteq> [] \<and> hd s1 = CHR ''-'');
          s2 = (if s1 \<noteq> [] \<and> (hd s1 = CHR ''-'' \<or> hd s1 = CHR ''+'') then tl s1 else s1);
          whole = takeWhile isdigit_c s2;
          s3 = dropWhile isdigit_c s2;
          fraction = (if next_is s3 CHR ''.'' then takeWhile isdigit_c (tl s3) else []);
          n = foldl (\<lambda>a c. 10 * a + digit_value c) 0 (whole @ fraction);
          v = of_int n / 10 ^ length fraction
      in if neg then - v else v)"

definition int_of_rat :: "rat \<Rightarrow> int option" where
  "int_of_rat q =
     (if - 2147483649 < q \<and> q < 2147483648
      then Some (if q < 0 then - \<lfloor>- q\<rfloor> else \<lfloor>q\<rfloor>)
      else None)"

definition printf_g_whole :: "rat \<Rightarrow> string" where
  "printf_g_whole q =
     (if of_int \<lfloor>q\<rfloor> = q \<and> - 1000000 < q \<and> q < 1000000 then printf_d \<lfloor>q\<rfloor> else [])"

definition example_libc :: "rat libc" where
  "example_libc =
     \<lparr>strtod = strtod_decimal, float_of_double = (\<lambda>x. x), int_of_float = int_of_rat,
      printf_g = printf_g_whole, mktemp_id = ''01234''\<rparr>"

section \<open>Storage and statements for the examples\<close>

text \<open>A storage without files, and the table \<^verbatim>\<open>orders\<close> with one integer column
  \<^verbatim>\<open>a\<close> and the one row \<^verbatim>\<open>0;1;\<close>, with a file that can be written and with
  one that cannot. \<open>orders_row\<close> is that row as \<^verbatim>\<open>SQLreadRow\<close> reads it: the
  newline at the end of the line makes a second column, which \<^verbatim>\<open>columnCount\<close>
  does not count.\<close>

definition empty_storage :: filesys where
  "empty_storage = \<lparr>catalog = None, files = (\<lambda>n. None), unwritable = (\<lambda>n. False)\<rparr>"

definition orders_table :: TableStructureInfo where
  "orders_table = \<lparr>count = 1, columns = [''a''], columnTypes = [Integer], name = ''orders''\<rparr>"

definition orders_storage :: filesys where
  "orders_storage =
     \<lparr>catalog = Some [orders_table],
      files = (\<lambda>n. if n = ''orders'' then Some (''0;1;'' @ [CHR 0x0A]) else None),
      unwritable = (\<lambda>n. False)\<rparr>"

definition locked_storage :: filesys where
  "locked_storage = orders_storage\<lparr>unwritable := (\<lambda>n. n = ''orders'')\<rparr>"

definition orders_row :: "'f Row" where
  "orders_row =
     \<lparr>index = 0,
      row_columns = [\<lparr>cvalue = VInteger 1, ctype = Integer, position = 0\<rparr>,
                     \<lparr>cvalue = VInteger 0, ctype = Integer, position = 1\<rparr>],
      columnCount = 1\<rparr>"

text \<open>The token lists of the queries \<^verbatim>\<open>INSERT_INTO: orders a:2\<close>,
  \<^verbatim>\<open>INSERT_INTO: orders a:1 a:2\<close>, \<^verbatim>\<open>UPDATE: orders a=5 a:7\<close>,
  \<^verbatim>\<open>DELETE: orders a=1 zz=7\<close> and
  \<^verbatim>\<open>DATASET: customers name:STRING age:INTEGER\<close>, and the catalog after the last
  one.\<close>

definition insert_tokens :: "Token list" where
  "insert_tokens =
     [\<lparr>keyword = ''INSERT_INTO'', val = ''orders'', operator = AssignOperator\<rparr>,
      \<lparr>keyword = ''a'', val = ''2'', operator = AssignOperator\<rparr>]"

definition insert_two_tokens :: "Token list" where
  "insert_two_tokens =
     [\<lparr>keyword = ''INSERT_INTO'', val = ''orders'', operator = AssignOperator\<rparr>,
      \<lparr>keyword = ''a'', val = ''1'', operator = AssignOperator\<rparr>,
      \<lparr>keyword = ''a'', val = ''2'', operator = AssignOperator\<rparr>]"

definition update_tokens :: "Token list" where
  "update_tokens =
     [\<lparr>keyword = ''UPDATE'', val = ''orders'', operator = AssignOperator\<rparr>,
      \<lparr>keyword = ''a'', val = ''5'', operator = EqualOperator\<rparr>,
      \<lparr>keyword = ''a'', val = ''7'', operator = AssignOperator\<rparr>]"

definition delete_tokens :: "Token list" where
  "delete_tokens =
     [\<lparr>keyword = ''DELETE'', val = ''orders'', operator = AssignOperator\<rparr>,
      \<lparr>keyword = ''a'', val = ''1'', operator = EqualOperator\<rparr>,
      \<lparr>keyword = ''zz'', val = ''7'', operator = EqualOperator\<rparr>]"

definition customers_tokens :: "Token list" where
  "customers_tokens =
     [\<lparr>keyword = ''DATASET'', val = ''customers'', operator = AssignOperator\<rparr>,
      \<lparr>keyword = ''name'', val = ''STRING'', operator = AssignOperator\<rparr>,
      \<lparr>keyword = ''age'', val = ''INTEGER'', operator = AssignOperator\<rparr>]"

definition customers_catalog :: filesys where
  "customers_catalog =
     empty_storage\<lparr>catalog :=
       Some [\<lparr>count = 2, columns = [''name'', ''age''], columnTypes = [String, Integer],
              name = ''custome''\<rparr>]\<rparr>"







section \<open>Evaluation of the model on the examples\<close>

lemmas lexer_defs =
  SQLParser_Parse_def is_operator_char_def quote_def is_delimiter_def trim_buffer_def
  isspace_c_def appendToken_def next_is_def

lemmas strtol_defs =
  strtol_c_def isspace_c_def isdigit_c_def digit_value_def LONG_MAX_def LONG_MIN_def

lemma floor_rat_numerals: "\<lfloor>(numeral a :: rat) / numeral b\<rfloor> = numeral a div numeral b"
  using floor_divide_of_int_eq [of "numeral a" "numeral b", where ?'a = rat] by simp

lemma parse_examples:
  "SQLParser_Parse ''INSERT_INTO: orders a:2'' = Inr (Some insert_tokens)"
  "SQLParser_Parse ''INSERT_INTO: orders a:1 a:2'' = Inr (Some insert_two_tokens)"
  "SQLParser_Parse ''UPDATE: orders a=5 a:7'' = Inr (Some update_tokens)"
  "SQLParser_Parse ''DELETE: orders a=1 zz=7'' = Inr (Some delete_tokens)"
  "SQLParser_Parse ''DATASET: customers name:STRING age:INTEGER'' = Inr (Some customers_tokens)"
  by (simp_all add: lexer_defs insert_tokens_def insert_two_tokens_def update_tokens_def
      delete_tokens_def customers_tokens_def)

lemma GetQueryType_examples:
  "SQLParser_GetQueryType ''DATASET'' = Create" "SQLParser_GetQueryType ''INSERT_INTO'' = Insert"
  "SQLParser_GetQueryType ''UPDATE'' = Update" "SQLParser_GetQueryType ''DELETE'' = Delete"
  by (simp_all add: SQLParser_GetQueryType_def SQLParser_FindInMap_def QueryTypes_def
      QueryType_of_int_def)

lemma GetFieldType_examples:
  "SQLParser_GetFieldType ''STRING'' = String" "SQLParser_GetFieldType ''INTEGER'' = Integer"
  by (simp_all add: SQLParser_GetFieldType_def SQLParser_FindInMap_def DataTypes_def
      FieldType_of_int_def)

lemma orders_table_simps:
  "name orders_table = ''orders''" "count orders_table = 1"
  "columnType_at orders_table i = Integer"
  by (simp_all add: orders_table_def columnType_at_def nth_Cons')

lemma FindColumn_orders:
  "SQLParser_FindColumn orders_table ''a'' = 0" "SQLParser_FindColumn orders_table ''zz'' = - 1"
  by (simp_all add: SQLParser_FindColumn_def orders_table_def column_name_at_def)

lemma orders_storage_simps:
  "files orders_storage ''orders'' = Some (''0;1;'' @ [CHR 0x0A])"
  "unwritable orders_storage n = False"
  "files orders_storage (CHR ''_'' # n) = None"
  by (simp_all add: orders_storage_def)

lemma FindTable_orders:
  "SQLParser_FindTable ''orders'' orders_storage = orders_table"
  "SQLParser_FindTable ''orders'' locked_storage = orders_table"
  by (simp_all add: SQLParser_FindTable_def locked_storage_def orders_storage_def orders_table_def)

lemma FindTable_customers: "SQLParser_FindTable ''customers'' empty_storage = zero_table"
  by (simp add: SQLParser_FindTable_def empty_storage_def)

lemma readRow_orders:
  "SQLreadRow L orders_table (''0;1;'' @ [CHR 0x0A]) = Inr (Some (orders_row, []))"
  by (simp add: SQLreadRow_def orders_table_simps strtok_all_def SQLvalueFromStringAndType_def
      strtol_defs size_t_decrement_def orders_row_def)

lemma load_rows_orders:
  "load_rows L None orders_table (''0;1;'' @ [CHR 0x0A]) = Inr [orders_row]"
proof -
  have "load_rows L None orders_table [] = Inr []"
    by (subst load_rows.simps) (simp add: SQLreadRow_def)
  then show ?thesis
    using readRow_orders [of L] by (subst load_rows.simps) simp
qed

lemma SQLloadTable_orders:
  "files fs ''orders'' = Some (''0;1;'' @ [CHR 0x0A])
    \<Longrightarrow> SQLloadTable L None orders_table fs = Inr [orders_row]"
  using load_rows_orders [of L] by (simp add: SQLloadTable_def orders_table_simps)


lemma mktemp_orders:
  "mktemp_c L orders_storage = Some (''__database_Temporary_a'' @ mktemp_id L)"
  by (simp add: mktemp_c_def orders_storage_def)

text \<open>A rewrite of the table \<^verbatim>\<open>orders\<close> whose loop comes to its end leaves the text
  of the loop in the file of the table, and no temporary file.\<close>

lemma rewrite_orders:
  assumes "loop [orders_row] = Inr (out, True)"
  shows "rewrite_table L orders_table orders_storage loop
         = Inr (orders_storage\<lparr>files := (files orders_storage)(''orders'' := Some out)\<rparr>)"
proof -
  let ?t = "''__database_Temporary_a'' @ mktemp_id L"
  let ?fs1 = "orders_storage\<lparr>files := (files orders_storage)(?t := Some [])\<rparr>"
  have load: "SQLloadTable L None orders_table ?fs1 = Inr [orders_row]"
    by (rule SQLloadTable_orders) (simp add: orders_storage_simps)
  have "rename_c ?t ''orders'' (remove_c ''orders''
          (?fs1\<lparr>files := (files ?fs1)(?t := Some out)\<rparr>))
        = orders_storage\<lparr>files := (files orders_storage)(''orders'' := Some out)\<rparr>"
    by (simp add: rename_c_def remove_c_def orders_storage_simps fun_eq_iff)
  then show ?thesis
    using load assms
    by (simp add: rewrite_table_def mktemp_orders fopen_write_fails_def orders_storage_simps
        orders_table_simps Let_def)
qed

section \<open>The predicate evaluator\<close>

text \<open>
  Claim C1: for a numeric stored value and a condition whose operator is LessOrEqual, the
  evaluator is to return true exactly when the literal of the condition is less than or
  equal to the stored value. \<^verbatim>\<open>SQLcompareValues\<close> has \<^verbatim>\<open>lhs >= rhs\<close> in this
  case, as for GreaterOrEqual: on an integer column it returns true exactly when the
  stored value is less than or equal to the literal, and for the literal 1 and the stored
  value 2 it returns 0.
\<close>

theorem SQLcompareValues_LessOrEqual_Integer:
  "SQLcompareValues L \<lparr>keyword = k, val = lit, operator = LessOrEqualOperator\<rparr>
      (VInteger rhs) Integer = Inr (bool_int (rhs \<le> strtol_c lit))
   \<and> SQLcompareValues L \<lparr>keyword = ''age'', val = ''1'', operator = LessOrEqualOperator\<rparr>
      (VInteger 2) Integer = Inr 0"
proof -
  have general: "SQLcompareValues L \<lparr>keyword = k, val = lit, operator = LessOrEqualOperator\<rparr>
      (VInteger rhs) Integer = Inr (bool_int (rhs \<le> strtol_c lit))" for k lit rhs
    by (simp add: SQLcompareValues_def)
  have "strtol_c ''1'' = 1"
    by (simp add: strtol_defs)
  then have "SQLcompareValues L \<lparr>keyword = ''age'', val = ''1'', operator = LessOrEqualOperator\<rparr>
      (VInteger 2) Integer = Inr 0"
    by (simp add: general bool_int_def)
  with general show ?thesis by blast
qed

text \<open>
  Claim C7: on a column of type Number the evaluator is to compare the literal and the
  stored value as floating-point numbers, without truncation to integer. The case
  \<^verbatim>\<open>Number\<close> of \<^verbatim>\<open>SQLcompareValues\<close> assigns both to \<^verbatim>\<open>int\<close> variables: the
  literal 1.5 and the stored value 1.25 differ, and the condition with the operator Equal
  is true of them.
\<close>

theorem SQLcompareValues_Number_truncates:
  "strtod example_libc ''1.5'' = 3 / 2
   \<and> SQLcompareValues example_libc \<lparr>keyword = ''price'', val = ''1.5'', operator = EqualOperator\<rparr>
      (VNumber (5 / 4)) Number = Inr 1"
proof -
  have literal: "strtod example_libc ''1.5'' = 3 / 2"
    by (simp add: example_libc_def strtod_decimal_def isspace_c_def isdigit_c_def
        digit_value_def next_is_def)
  have "SQLcompareValues example_libc
      \<lparr>keyword = ''price'', val = ''1.5'', operator = EqualOperator\<rparr> (VNumber (5 / 4)) Number = Inr 1"
    by (simp add: SQLcompareValues_def example_libc_def strtod_decimal_def int_of_rat_def
        bool_int_def isspace_c_def isdigit_c_def digit_value_def next_is_def floor_rat_numerals)
  with literal show ?thesis by blast
qed

section \<open>The lexer on operators and quotes\<close>

text \<open>
  Claim C6: where the lexer meets the two characters \<^verbatim>\<open>!=\<close>, it is to produce the
  operator NotEqual. The test of \<^verbatim>\<open>SQLfindOperator_helper\<close> for this operator
  compares the same character with \<^verbatim>\<open>!\<close> and with \<^verbatim>\<open>=\<close>, so the helper
  returns \<^verbatim>\<open>AssignOperator\<close> at \<^verbatim>\<open>!\<close> without moving the cursor, the lexer
  then meets \<^verbatim>\<open>=\<close> while it scans a value, and the query is rejected.
\<close>

theorem SQLParser_Parse_not_equal:
  "SQLfindOperator_helper ''!=5'' = (AssignOperator, ''!=5'')
   \<and> SQLParser_Parse ''SELECT: t a!=5'' = Inr None"
proof -
  have "SQLfindOperator_helper ''!=5'' = (AssignOperator, ''!=5'')"
    by simp
  moreover have "SQLParser_Parse ''SELECT: t a!=5'' = Inr None"
    by (simp add: lexer_defs)
  ultimately show ?thesis by blast
qed

text \<open>
  Claim C5: an input with an opening single quote and no closing quote is to make the
  lexer return a parse error and no token list. The inner loop of the quote case,
  \<^verbatim>\<open>while ((*(query++) != '\0') && (*query != '\''))\<close>, is commented as consuming
  the input until the end of the text or a quote, but it tests the terminator after it
  has copied it and increments the cursor once more: in the query below, where the quote
  follows an operator, the cursor ends behind the terminator and the outer loop reads
  on from there. No parse error is returned.
\<close>

theorem SQLParser_Parse_unterminated_quote:
  "SQLParser_Parse ''SELECT: t name='Ann'' = Inl ReadPastTerminator"
  by (simp add: lexer_defs)

section \<open>The catalog\<close>

text \<open>
  Claim C4: after a successful CREATE of a table, \<^verbatim>\<open>find_table\<close> with the same name
  is to return the schema with that table name and those columns.
  \<^verbatim>\<open>SQLParser_CreateTable\<close> copies as many bytes of the table name as the keyword
  \<^verbatim>\<open>DATASET\<close> has characters: the table \<^verbatim>\<open>customers\<close> is created with success
  under the name \<^verbatim>\<open>custome\<close>, and \<^verbatim>\<open>SQLParser_FindTable\<close> does not find
  \<^verbatim>\<open>customers\<close> afterwards.
\<close>

theorem SQLParser_CreateTable_truncates_name:
  "SQLExecuteQuery L ''DATASET: customers name:STRING age:INTEGER'' empty_storage
     = Inr (0, customers_catalog)
   \<and> SQLParser_CreateTable customers_tokens empty_storage = Inr (0, customers_catalog)
   \<and> SQLParser_FindTable ''customers'' customers_catalog = zero_table"
proof -
  have create: "SQLParser_CreateTable customers_tokens empty_storage = Inr (0, customers_catalog)"
    by (simp add: SQLParser_CreateTable_def customers_tokens_def fopen_write_fails_def
        catalog_name_def empty_storage_def GetFieldType_examples customers_catalog_def)
  have "SQLExecuteQuery L ''DATASET: customers name:STRING age:INTEGER'' empty_storage
     = Inr (0, customers_catalog)"
    by (simp add: SQLExecuteQuery_def parse_examples customers_tokens_def FindTable_customers
        GetQueryType_examples zero_table_def create [unfolded customers_tokens_def])
  moreover have "SQLParser_FindTable ''customers'' customers_catalog = zero_table"
    by (simp add: SQLParser_FindTable_def customers_catalog_def)
  ultimately show ?thesis
    using create by blast
qed

section \<open>INSERT\<close>

lemma insert_columns_two:
  "insert_columns L orders_table
     [\<lparr>keyword = ''a'', val = ''1'', operator = AssignOperator\<rparr>,
      \<lparr>keyword = ''a'', val = ''2'', operator = AssignOperator\<rparr>]
     \<lparr>index = 0, row_columns = [], columnCount = 0\<rparr>
   = Inr (Some \<lparr>index = 0,
                row_columns = [\<lparr>cvalue = VInteger 1, ctype = Integer, position = 0\<rparr>,
                               \<lparr>cvalue = VInteger 2, ctype = Integer, position = 0\<rparr>],
                columnCount = 2\<rparr>)"
  by (simp add: SQLcheckOperator_def bool_int_def SQLisValidRow_def orders_table_simps
      FindColumn_orders SQLvalueFromStringAndType_def set_column_def strtol_defs)

lemma write_row_two:
  "SQLwriteRowToFile L
     \<lparr>index = 0,
      row_columns = [\<lparr>cvalue = VInteger 1, ctype = Integer, position = 0\<rparr>,
                     \<lparr>cvalue = VInteger 2, ctype = Integer, position = 0\<rparr>],
      columnCount = 2\<rparr> = Inr (''0;1;2;'' @ [CHR 0x0A])"
  by (simp add: SQLwriteRowToFile_def column_at_def write_column_def printf_d_def
      digits_of.simps digit_char_def upt_rec)

lemma insert_two_run:
  "SQLinsert L insert_two_tokens orders_table orders_storage
   = Inr (orders_storage\<lparr>files := (files orders_storage)
            (''orders'' := Some (''0;1;'' @ [CHR 0x0A] @ ''0;1;2;'' @ [CHR 0x0A]))\<rparr>)"
  by (simp add: SQLinsert_def insert_two_tokens_def insert_columns_two SQLwriteRow_def
      write_row_two orders_table_simps fopen_write_fails_def orders_storage_simps file_text_def
      del: insert_columns.simps)

text \<open>
  Claim C8: an INSERT with more assignments than the table has columns, or with a column
  that the table does not have, is to be rejected without a record being appended.
  \<^verbatim>\<open>SQLisValidRow\<close> compares the number of columns of the row with the count of the
  table before the next column is added, and only rejects a greater one: two assignments
  to the table \<^verbatim>\<open>orders\<close>, which has one column, append a record with two fields.
\<close>

theorem SQLinsert_more_assignments_than_columns:
  "count orders_table = 1
   \<and> SQLExecuteQuery L ''INSERT_INTO: orders a:1 a:2'' orders_storage
       = Inr (0, orders_storage\<lparr>files := (files orders_storage)
                  (''orders'' := Some (''0;1;'' @ [CHR 0x0A] @ ''0;1;2;'' @ [CHR 0x0A]))\<rparr>)"
proof -
  have "SQLExecuteQuery L ''INSERT_INTO: orders a:1 a:2'' orders_storage
       = Inr (0, orders_storage\<lparr>files := (files orders_storage)
                  (''orders'' := Some (''0;1;'' @ [CHR 0x0A] @ ''0;1;2;'' @ [CHR 0x0A]))\<rparr>)"
    by (simp add: SQLExecuteQuery_def parse_examples insert_two_tokens_def FindTable_orders
        GetQueryType_examples insert_two_run [unfolded insert_two_tokens_def])
  then show ?thesis
    by (simp add: orders_table_simps)
qed

lemma set_column_index: "index (set_column row i column) = index row"
  by (simp add: set_column_def)

lemma insert_columns_index:
  "insert_columns L table list row = Inr (Some row') \<Longrightarrow> index row' = index row"
proof (induction list arbitrary: row)
  case Nil
  then show ?case by simp
next
  case (Cons t list)
  then show ?case
    by (auto split: if_splits sum.splits simp: set_column_index dest!: Cons.IH)
qed

lemma insert_one_run:
  "SQLinsert L insert_tokens orders_table orders_storage
   = Inr (orders_storage\<lparr>files := (files orders_storage)
            (''orders'' := Some (''0;1;'' @ [CHR 0x0A] @ ''0;2;'' @ [CHR 0x0A]))\<rparr>)"
proof -
  have "insert_columns L orders_table
          [\<lparr>keyword = ''a'', val = ''2'', operator = AssignOperator\<rparr>]
          \<lparr>index = 0, row_columns = [], columnCount = 0\<rparr>
        = Inr (Some \<lparr>index = 0,
                     row_columns = [\<lparr>cvalue = VInteger 2, ctype = Integer, position = 0\<rparr>],
                     columnCount = 1\<rparr>)"
    by (simp add: SQLcheckOperator_def bool_int_def SQLisValidRow_def orders_table_simps
        FindColumn_orders SQLvalueFromStringAndType_def set_column_def strtol_defs)
  moreover have "SQLwriteRowToFile L
      \<lparr>index = 0, row_columns = [\<lparr>cvalue = VInteger 2, ctype = Integer, position = 0\<rparr>],
       columnCount = 1\<rparr> = Inr (''0;2;'' @ [CHR 0x0A])"
    by (simp add: SQLwriteRowToFile_def column_at_def write_column_def printf_d_def
        digits_of.simps digit_char_def)
  ultimately show ?thesis
    by (simp add: SQLinsert_def insert_tokens_def SQLwriteRow_def orders_table_simps
        fopen_write_fails_def orders_storage_simps file_text_def del: insert_columns.simps)
qed

text \<open>
  Claim C10: the record that a successful INSERT appends to the file of the table has the
  row index 0, whatever the table holds. An INSERT that changes the storage appends, to
  the file of the table and to nothing else, the text of a row whose index is 0; the text
  begins with \<^verbatim>\<open>0;\<close>.
\<close>

theorem SQLinsert_row_index_zero:
  assumes "SQLinsert L list table fs = Inr fs'" and "fs' \<noteq> fs"
  shows "\<exists>row out. index row = 0 \<and> SQLwriteRowToFile L row = Inr (''0;'' @ out)
           \<and> fs' = fs\<lparr>files := (files fs)
                    (name table := Some (file_text fs (name table) @ ''0;'' @ out))\<rparr>"
proof -
  from assms obtain first rest row where
    list: "list = first # rest" and
    row: "insert_columns L table rest \<lparr>index = 0, row_columns = [], columnCount = 0\<rparr>
            = Inr (Some row)" and
    wr: "SQLwriteRow L (name table) row fs = Inr fs'"
    by (auto simp: SQLinsert_def split: list.splits sum.splits option.splits)
  from insert_columns_index [OF row] have idx: "index row = 0"
    by simp
  from wr assms(2) obtain printed where
    printed: "SQLwriteRowToFile L row = Inr printed" and
    fs': "fs' = fs\<lparr>files := (files fs)(name table := Some (file_text fs (name table) @ printed))\<rparr>"
    by (auto simp: SQLwriteRow_def split: if_splits sum.splits)
  from printed idx obtain out where "printed = ''0;'' @ out"
    by (auto simp: SQLwriteRowToFile_def printf_d_def digits_of.simps digit_char_def
        split: if_splits sum.splits)
  with idx printed fs' show ?thesis by blast
qed

theorem SQLinsert_row_index_zero_witness:
  "SQLinsert example_libc insert_tokens orders_table orders_storage
     = Inr (orders_storage\<lparr>files := (files orders_storage)
              (''orders'' := Some (''0;1;'' @ [CHR 0x0A] @ ''0;2;'' @ [CHR 0x0A]))\<rparr>)
   \<and> (\<exists>row out. index row = 0 \<and> SQLwriteRowToFile example_libc row = Inr (''0;'' @ out)
         \<and> orders_storage\<lparr>files := (files orders_storage)
              (''orders'' := Some (''0;1;'' @ [CHR 0x0A] @ ''0;2;'' @ [CHR 0x0A]))\<rparr>
           = orders_storage\<lparr>files := (files orders_storage)
              (name orders_table :=
                 Some (file_text orders_storage (name orders_table) @ ''0;'' @ out))\<rparr>)"
proof -
  let ?fs' = "orders_storage\<lparr>files := (files orders_storage)
              (''orders'' := Some (''0;1;'' @ [CHR 0x0A] @ ''0;2;'' @ [CHR 0x0A]))\<rparr>"
  have run: "SQLinsert example_libc insert_tokens orders_table orders_storage = Inr ?fs'"
    by (rule insert_one_run)
  have "files ?fs' ''orders'' \<noteq> files orders_storage ''orders''"
    by (simp add: orders_storage_simps)
  then have changed: "?fs' \<noteq> orders_storage"
    by (metis (no_types))
  from SQLinsert_row_index_zero [OF run changed] run show ?thesis
    by blast
qed

section \<open>UPDATE and DELETE\<close>

lemma columnCount_orders_row: "columnCount (orders_row :: 'f Row) = 1"
  by (simp add: orders_row_def)

lemma delete_rows_orders:
  "delete_rows L delete_tokens orders_table [orders_row] = Inr ([], True)"
proof -
  have matched: "SQLfilterRow L delete_tokens orders_table orders_row = Inr 1"
    by (simp add: SQLfilterRow_def delete_tokens_def FindColumn_orders column_at_def
        orders_row_def SQLcompareValues_def strtol_defs bool_int_def)
  have valid: "SQLisValidRow
      [\<lparr>keyword = ''a'', val = ''1'', operator = EqualOperator\<rparr>,
       \<lparr>keyword = ''zz'', val = ''7'', operator = EqualOperator\<rparr>]
      orders_table (orders_row :: 'f Row) = 1"
    by (simp add: SQLisValidRow_def orders_table_simps FindColumn_orders columnCount_orders_row)
  show ?thesis
    by (simp add: delete_tokens_def valid matched [unfolded delete_tokens_def])
qed

text \<open>
  Claim C2: an UPDATE or DELETE with a reference to a column that the table does not have
  is to abort and leave the file of the table as it is. \<^verbatim>\<open>SQLdelete\<close> and
  \<^verbatim>\<open>SQLupdate\<close> pass \<^verbatim>\<open>list->next\<close> to \<^verbatim>\<open>SQLisValidRow\<close>, which looks at
  the column of that one token; \<^verbatim>\<open>SQLfilterRow\<close> skips a condition on a column it
  does not find. The table \<^verbatim>\<open>orders\<close> has no column \<^verbatim>\<open>zz\<close>, and the DELETE
  below, whose second condition names it, removes the row and replaces the file.
\<close>

theorem SQLdelete_unknown_second_column:
  "SQLParser_FindColumn orders_table ''zz'' = - 1
   \<and> SQLExecuteQuery L ''DELETE: orders a=1 zz=7'' orders_storage
       = Inr (0, orders_storage\<lparr>files := (files orders_storage)(''orders'' := Some [])\<rparr>)"
proof -
  have "SQLdelete L delete_tokens orders_table orders_storage
        = Inr (orders_storage\<lparr>files := (files orders_storage)(''orders'' := Some [])\<rparr>)"
    using rewrite_orders [where L = L and loop = "delete_rows L delete_tokens orders_table",
        OF delete_rows_orders]
    by (simp add: SQLdelete_def)
  then have "SQLExecuteQuery L ''DELETE: orders a=1 zz=7'' orders_storage
       = Inr (0, orders_storage\<lparr>files := (files orders_storage)(''orders'' := Some [])\<rparr>)"
    by (simp add: SQLExecuteQuery_def parse_examples delete_tokens_def FindTable_orders
        GetQueryType_examples)
  then show ?thesis
    by (simp add: FindColumn_orders)
qed


























section \<open>The result of the entry point\<close>

lemma locked_orders_fails: "fopen_write_fails locked_storage ''orders''"
  by (simp add: fopen_write_fails_def locked_storage_def)

lemma execute_insert_locked:
  "SQLExecuteQuery L ''INSERT_INTO: orders a:2'' locked_storage = Inr (0, locked_storage)"
proof -
  have "SQLinsert L insert_tokens orders_table locked_storage = Inr locked_storage"
    by (simp add: SQLinsert_def insert_tokens_def SQLcheckOperator_def bool_int_def
        SQLisValidRow_def orders_table_simps FindColumn_orders SQLvalueFromStringAndType_def
        SQLwriteRow_def locked_orders_fails)
  then show ?thesis
    by (simp add: SQLExecuteQuery_def parse_examples insert_tokens_def FindTable_orders
        GetQueryType_examples)
qed

text \<open>
  Claim C3, as stated: a statement whose storage access fails reports the failure to the
  caller as an error result. The file of the table \<^verbatim>\<open>orders\<close> cannot be opened for
  appending in the storage below; the INSERT appends nothing and the entry point returns
  0, as it does for a statement that succeeded.
\<close>

theorem SQLExecuteQuery_swallows_open_failure:
  "fopen_write_fails locked_storage ''orders''
   \<and> SQLExecuteQuery example_libc ''INSERT_INTO: orders a:2'' locked_storage
       = Inr (0, locked_storage)"
  using execute_insert_locked [of example_libc] locked_orders_fails by blast

text \<open>
  Claim C3, amended: the executors return nothing, and the entry point ignores the result
  of \<^verbatim>\<open>SQLParser_CreateTable\<close>. The value that \<^verbatim>\<open>SQLExecuteQuery\<close> returns is 1
  when the lexer gives no token (a parse error, or a query without operator) and 0 for
  every other query, whether its accesses to the storage failed or not.
\<close>

theorem SQLExecuteQuery_return_value:
  assumes "SQLExecuteQuery L query fs = Inr (rc, fs')"
  shows "rc = (case SQLParser_Parse query of Inr (Some (first # rest)) \<Rightarrow> 0 | _ \<Rightarrow> 1)"
  using assms
  by (auto simp: SQLExecuteQuery_def Let_def
      split: sum.splits option.splits list.splits QueryType.splits if_splits prod.splits)

theorem SQLExecuteQuery_return_value_witness:
  "SQLExecuteQuery example_libc ''INSERT_INTO: orders a:2'' locked_storage
     = Inr (0, locked_storage)
   \<and> (0 :: int) = (case SQLParser_Parse ''INSERT_INTO: orders a:2'' of
                      Inr (Some (first # rest)) \<Rightarrow> 0 | _ \<Rightarrow> 1)"
  using SQLExecuteQuery_return_value [OF execute_insert_locked [of example_libc]]
    execute_insert_locked [of example_libc]
  by blast

end
